theory Spec2Isabelle
  imports Main
begin

section \<open>The request and its bootstrap instruction\<close>

text \<open>
  The middleware of \<^verbatim>\<open>src/server/middleware.js\<close> reads two keys of the query string:
  \<^verbatim>\<open>req.query.__mode\<close> and \<^verbatim>\<open>req.query.__bootstrap\<close>. A key is either missing
  (\<open>None\<close>, JavaScript's \<^verbatim>\<open>undefined\<close>) or a string. Isabelle names cannot start with
  an underscore, so the keys are \<open>query_mode\<close> and \<open>query_bootstrap\<close>, and the helper
  \<^verbatim>\<open>_getQueryBootstrap\<close> is \<open>getQueryBootstrap\<close>.
\<close>

record request =
  query_mode :: "string option"
  query_bootstrap :: "string option"

text \<open>
  The object \<^verbatim>\<open>{ types: types, value: value }\<close> that \<^verbatim>\<open>_getQueryBootstrap\<close> returns.
  The field \<^verbatim>\<open>value\<close> is \<open>value_arg\<close> here; it is \<open>None\<close> when the JavaScript
  value is \<^verbatim>\<open>undefined\<close>.
\<close>

record instruction =
  types :: string
  value_arg :: "string option"

text \<open>
  \<^verbatim>\<open>String.prototype.split\<close> with a separator of one character: the string is cut at
  every occurrence of the separator, and the result always has at least one part
  (\<^verbatim>\<open>"".split(":")\<close> is \<^verbatim>\<open>[""]\<close>).
\<close>

fun js_split :: "char \<Rightarrow> string \<Rightarrow> string list" where
  "js_split c [] = [[]]"
| "js_split c (x # xs) =
     (if x = c then [] # js_split c xs
      else (case js_split c xs of
              [] \<Rightarrow> [[x]]
            | p # ps \<Rightarrow> (x # p) # ps))"

text \<open>Array indexing \<^verbatim>\<open>parts[i]\<close>: \<^verbatim>\<open>undefined\<close> (\<open>None\<close>) past the end.\<close>

fun index :: "'a list \<Rightarrow> nat \<Rightarrow> 'a option" where
  "index [] i = None"
| "index (x # xs) 0 = Some x"
| "index (x # xs) (Suc i) = index xs i"

text \<open>
  JavaScript's \<^verbatim>\<open>!s\<close> for a value that is \<^verbatim>\<open>undefined\<close> or a string: true for
  \<^verbatim>\<open>undefined\<close> and for the empty string.
\<close>

fun falsy :: "string option \<Rightarrow> bool" where
  "falsy None = True"
| "falsy (Some s) = (s = [])"

text \<open>\<^verbatim>\<open>_getQueryBootstrap\<close>, lines 9 to 24; \<open>None\<close> is the \<^verbatim>\<open>null\<close> it returns.\<close>

definition getQueryBootstrap :: "request \<Rightarrow> instruction option" where
  "getQueryBootstrap req =
     (case query_bootstrap req of
        None \<Rightarrow> None
      | Some bootstrap \<Rightarrow>
          if falsy (Some bootstrap) then None
          else
            (let parts = js_split CHR '':'' bootstrap;
                 types_part = index parts 0;
                 value_part = index parts 1
             in if falsy types_part then None
                else (case types_part of
                        None \<Rightarrow> None
                      | Some t \<Rightarrow> Some \<lparr>types = t, value_arg = value_part\<rparr>)))"

section \<open>The collaborators outside the middleware\<close>

text \<open>
  The store (\<^verbatim>\<open>Flux\<close>, an instance of the alt library), the renderer
  (\<^verbatim>\<open>ReactDOMServer.renderToString\<close> on the component given to the factory) and the
  actions of \<^verbatim>\<open>ConvertActions\<close> are not part of \<^verbatim>\<open>middleware.js\<close>. They are
  parameters of the model: \<open>'s\<close> is the state of the stores of one flux instance,
  \<open>'c\<close> the conversions a fetch delivers and \<open>'e\<close> an error value. The fields
  say what a call does when it returns; whether a call throws instead is the matter of
  \<open>faults\<close> below.

  \<^item> \<open>new_flux\<close>: the state of the stores right after \<^verbatim>\<open>new Flux()\<close>;
  \<^item> \<open>bootstrap conversions types value\<close>: \<^verbatim>\<open>flux.bootstrap(JSON.stringify({
    ConvertStore: { conversions, types, value } }))\<close>;
  \<^item> \<open>takeSnapshot\<close>: \<^verbatim>\<open>flux.takeSnapshot()\<close>;
  \<^item> \<open>renderToString\<close>: \<^verbatim>\<open>ReactDOMServer.renderToString(new Component({ flux: flux }))\<close>;
  \<^item> \<open>setConversionTypes\<close>, \<open>setConversionValue\<close>: what the two synchronous actions
    do to the stores;
  \<^item> \<open>updateConversions\<close>, \<open>conversionError\<close>: what the stores do when the actions
    \<^verbatim>\<open>UPDATE_CONVERSIONS\<close> and \<^verbatim>\<open>CONVERSION_ERROR\<close> are dispatched.
\<close>

record ('s, 'c, 'e) collaborators =
  new_flux :: 's
  bootstrap :: "'c \<Rightarrow> string \<Rightarrow> string option \<Rightarrow> 's \<Rightarrow> 's"
  takeSnapshot :: "'s \<Rightarrow> string"
  renderToString :: "'s \<Rightarrow> string"
  setConversionTypes :: "string \<Rightarrow> 's \<Rightarrow> 's"
  setConversionValue :: "string option \<Rightarrow> 's \<Rightarrow> 's"
  updateConversions :: "'c \<Rightarrow> 's \<Rightarrow> 's"
  conversionError :: "'e \<Rightarrow> 's \<Rightarrow> 's"

text \<open>
  Modelled from the spec: \<^verbatim>\<open>flux.flush()\<close> of the store library, which is not under
  \<^verbatim>\<open>src/\<close>. The spec's words are "reset the shared store to a clean state": the state
  of the stores becomes the one a new instance has.
\<close>

definition flush :: "('s, 'c, 'e) collaborators \<Rightarrow> 's \<Rightarrow> 's" where
  "flush lib s = new_flux lib"

text \<open>
  A call into a collaborator can throw instead of returning. In the fetch-first
  middleware the three calls of the \<^verbatim>\<open>.then\<close> callback that go into the parameters
  above are made inside a promise chain that ends in the source's own \<^verbatim>\<open>.catch\<close>
  (line 98), so an exception there is part of what the middleware does. For each of
  these calls \<open>faults\<close> says whether it throws, and what: \<open>None\<close> when the call
  returns, \<open>Some err\<close> when it throws \<open>err\<close>. When \<^verbatim>\<open>flux.bootstrap\<close> throws,
  \<open>bootstrap\<close> is the state it leaves the stores in. \<^verbatim>\<open>flux.flush()\<close>, modelled from
  the spec as the reset, and the continuation \<^verbatim>\<open>next\<close> are taken to return.

  In the actions middleware the calls of the listener are not inside any handler of
  \<^verbatim>\<open>middleware.js\<close>: an exception there leaves the file, and what follows is decided
  by the store library. The model of the actions middleware is the listener whose calls
  return.
\<close>

record ('s, 'c, 'e) faults =
  bootstrap_throws :: "'c \<Rightarrow> string \<Rightarrow> string option \<Rightarrow> 's \<Rightarrow> 'e option"
  takeSnapshot_throws :: "'s \<Rightarrow> 'e option"
  renderToString_throws :: "'s \<Rightarrow> 'e option"

text \<open>The two actions the middleware listens for.\<close>

datatype action_id = UPDATE_CONVERSIONS | CONVERSION_ERROR

text \<open>
  What the handler does that can be seen from outside, in the order it happens: the calls
  of the continuation \<^verbatim>\<open>next\<close> (with its argument, \<open>None\<close> for a call without one)
  and the calls into the collaborators.
\<close>

datatype ('c, 'e) effect =
    Next "'e option"
  | FetchConversions string "string option"
  | Bootstrap 'c string "string option"
  | TakeSnapshot
  | RenderToString
  | Flush
  | NewFlux
  | AddActionListener action_id
  | RemoveAllActionListeners
  | SetConversionTypes string
  | SetConversionValue "string option"
  | FetchConversionsAction string "string option"

text \<open>The two fields the middleware writes into \<^verbatim>\<open>res.locals\<close>.\<close>

record locals =
  bootstrapData :: "string option"
  bootstrapComponent :: "string option"

text \<open>What every handler has: the locals of its response and the effects so far.\<close>

record ('c, 'e) io =
  res_locals :: locals
  trace :: "('c, 'e) effect list"

definition call_next ::
  "'e option \<Rightarrow> ('c, 'e, 'z) io_scheme \<Rightarrow> ('c, 'e, 'z) io_scheme" where
  "call_next err w = w\<lparr>trace := trace w @ [Next err]\<rparr>"

section \<open>The fetch-first middleware\<close>

text \<open>
  \<^verbatim>\<open>fetch(Component)\<close> creates one flux instance (line 59) that every request of the
  returned handler shares: the field \<open>singleton\<close>.
\<close>

record ('s, 'c, 'e) fetch_world = "('c, 'e) io" +
  singleton :: 's

definition fetch_factory ::
  "('s, 'c, 'e) collaborators \<Rightarrow> locals \<Rightarrow> ('s, 'c, 'e) fetch_world" where
  "fetch_factory lib l = \<lparr>res_locals = l, trace = [], singleton = new_flux lib\<rparr>"

text \<open>How the promise of \<^verbatim>\<open>fetchConversions(types, value)\<close> settles.\<close>

datatype ('c, 'e) outcome = Resolved 'c | Rejected 'e

text \<open>
  The end of the \<^verbatim>\<open>.then\<close> callback, lines 93 to 96: flush, then the continuation.
\<close>

definition fetch_finish ::
  "('s, 'c, 'e) collaborators \<Rightarrow> ('s, 'c, 'e) fetch_world \<Rightarrow> ('s, 'c, 'e) fetch_world" where
  "fetch_finish lib w =
     call_next None (w\<lparr>singleton := flush lib (singleton w), trace := trace w @ [Flush]\<rparr>)"

text \<open>
  The callback of \<^verbatim>\<open>.then\<close>, lines 73 to 97: the world it leaves and the exception
  it throws, if it throws one. A call that throws is among the effects, and the callback
  stops there: a throwing \<^verbatim>\<open>takeSnapshot\<close> writes no snapshot, a throwing
  \<^verbatim>\<open>renderToString\<close> comes after the snapshot is written (line 84) and before the
  flush (line 94).
\<close>

definition fetch_then ::
  "('s, 'c, 'e) collaborators \<Rightarrow> ('s, 'c, 'e) faults \<Rightarrow> request \<Rightarrow> instruction \<Rightarrow> 'c \<Rightarrow>
   ('s, 'c, 'e) fetch_world \<Rightarrow> ('s, 'c, 'e) fetch_world \<times> 'e option" where
  "fetch_then lib flt req qb conversions w =
     (let w1 = w\<lparr>singleton :=
                   bootstrap lib conversions (types qb) (value_arg qb) (singleton w),
                 trace := trace w @ [Bootstrap conversions (types qb) (value_arg qb)]\<rparr>
      in case bootstrap_throws flt conversions (types qb) (value_arg qb) (singleton w) of
           Some err \<Rightarrow> (w1, Some err)
         | None \<Rightarrow>
             (case takeSnapshot_throws flt (singleton w1) of
                Some err \<Rightarrow> (w1\<lparr>trace := trace w1 @ [TakeSnapshot]\<rparr>, Some err)
              | None \<Rightarrow>
                  (let w2 = w1\<lparr>res_locals := (res_locals w1)
                               \<lparr>bootstrapData := Some (takeSnapshot lib (singleton w1))\<rparr>,
                             trace := trace w1 @ [TakeSnapshot]\<rparr>
                   in if query_mode req \<noteq> Some ''noss''
                      then (case renderToString_throws flt (singleton w2) of
                              Some err \<Rightarrow> (w2\<lparr>trace := trace w2 @ [RenderToString]\<rparr>, Some err)
                            | None \<Rightarrow>
                                (fetch_finish lib
                                   (w2\<lparr>res_locals := (res_locals w2)
                                         \<lparr>bootstrapComponent :=
                                            Some (renderToString lib (singleton w2))\<rparr>,
                                       trace := trace w2 @ [RenderToString]\<rparr>),
                                 None))
                      else (fetch_finish lib w2, None))))"

text \<open>The callback of \<^verbatim>\<open>.catch\<close>, line 98.\<close>

definition fetch_catch ::
  "'e \<Rightarrow> ('s, 'c, 'e) fetch_world \<Rightarrow> ('s, 'c, 'e) fetch_world" where
  "fetch_catch err w = call_next (Some err) w"

text \<open>
  The synchronous part of the handler, lines 61 to 72: the world when the handler returns
  and, when it called \<^verbatim>\<open>fetchConversions\<close>, the instruction whose promise is
  outstanding.
\<close>

definition fetch_handler ::
  "request \<Rightarrow> ('s, 'c, 'e) fetch_world \<Rightarrow> ('s, 'c, 'e) fetch_world \<times> instruction option" where
  "fetch_handler req w =
     (if query_mode req = Some ''noss'' then (call_next None w, None)
      else (case getQueryBootstrap req of
              None \<Rightarrow> (call_next None w, None)
            | Some qb \<Rightarrow>
                (w\<lparr>trace := trace w @ [FetchConversions (types qb) (value_arg qb)]\<rparr>,
                 Some qb)))"

text \<open>
  The promise settles. \<^verbatim>\<open>.catch\<close> is chained on the promise that \<^verbatim>\<open>.then\<close>
  returns: its callback runs on a rejected fetch, with the rejection, and also when the
  \<^verbatim>\<open>.then\<close> callback throws, with the exception, in the world that callback left.
\<close>

definition fetch_settle ::
  "('s, 'c, 'e) collaborators \<Rightarrow> ('s, 'c, 'e) faults \<Rightarrow> request \<Rightarrow> instruction \<Rightarrow>
   ('c, 'e) outcome \<Rightarrow> ('s, 'c, 'e) fetch_world \<Rightarrow> ('s, 'c, 'e) fetch_world" where
  "fetch_settle lib flt req qb out w =
     (case out of
        Resolved conversions \<Rightarrow>
          (case fetch_then lib flt req qb conversions w of
             (w', None) \<Rightarrow> w'
           | (w', Some err) \<Rightarrow> fetch_catch err w')
      | Rejected err \<Rightarrow> fetch_catch err w)"

text \<open>
  One whole request: the handler, then the settlement of the fetch it started, if it
  started one. \<open>out\<close> is what the network would answer.
\<close>

definition fetch_request ::
  "('s, 'c, 'e) collaborators \<Rightarrow> ('s, 'c, 'e) faults \<Rightarrow> request \<Rightarrow> ('c, 'e) outcome \<Rightarrow>
   ('s, 'c, 'e) fetch_world \<Rightarrow> ('s, 'c, 'e) fetch_world" where
  "fetch_request lib flt req out w =
     (case fetch_handler req w of
        (w', None) \<Rightarrow> w'
      | (w', Some qb) \<Rightarrow> fetch_settle lib flt req qb out w')"

text \<open>
  The next request of the same handler: a new response (its own locals, its effects
  counted from nothing) and the flux instance as the request before left it.
\<close>

definition next_request ::
  "locals \<Rightarrow> ('s, 'c, 'e) fetch_world \<Rightarrow> ('s, 'c, 'e) fetch_world" where
  "next_request l w = \<lparr>res_locals = l, trace = [], singleton = singleton w\<rparr>"

section \<open>The actions middleware\<close>

text \<open>
  \<^verbatim>\<open>actions(Component)\<close> creates a flux instance and a set of listeners for each
  request that passes the two gates (lines 142 and 143); before that the request has
  neither. A listener is named by the action it was added for: the callback of
  \<^verbatim>\<open>UPDATE_CONVERSIONS\<close> is the function of lines 161 to 173 (\<open>on_update\<close>), the
  callback of \<^verbatim>\<open>CONVERSION_ERROR\<close> is \<^verbatim>\<open>_done\<close> (\<open>done_fn\<close>).
\<close>

record ('s, 'c, 'e) actions_world = "('c, 'e) io" +
  flux :: "'s option"
  listeners :: "action_id list"

definition actions_start :: "locals \<Rightarrow> ('s, 'c, 'e) actions_world" where
  "actions_start l = \<lparr>res_locals = l, trace = [], flux = None, listeners = []\<rparr>"

text \<open>\<^verbatim>\<open>_done\<close>, lines 147 to 151.\<close>

definition done_fn ::
  "('s, 'c, 'e) collaborators \<Rightarrow> 'e option \<Rightarrow>
   ('s, 'c, 'e) actions_world \<Rightarrow> ('s, 'c, 'e) actions_world" where
  "done_fn lib err w =
     (let w1 = w\<lparr>listeners := [], trace := trace w @ [RemoveAllActionListeners]\<rparr>;
          w2 = w1\<lparr>flux := map_option (flush lib) (flux w1), trace := trace w1 @ [Flush]\<rparr>
      in call_next err w2)"

text \<open>The listener of \<^verbatim>\<open>UPDATE_CONVERSIONS\<close>, lines 161 to 173.\<close>

definition on_update ::
  "('s, 'c, 'e) collaborators \<Rightarrow> request \<Rightarrow>
   ('s, 'c, 'e) actions_world \<Rightarrow> ('s, 'c, 'e) actions_world" where
  "on_update lib req w =
     (let w1 = w\<lparr>res_locals := (res_locals w)
                   \<lparr>bootstrapData := map_option (takeSnapshot lib) (flux w)\<rparr>,
                 trace := trace w @ [TakeSnapshot]\<rparr>;
          w2 = (if query_mode req \<noteq> Some ''noss''
                then w1\<lparr>res_locals := (res_locals w1)
                           \<lparr>bootstrapComponent := map_option (renderToString lib) (flux w1)\<rparr>,
                         trace := trace w1 @ [RenderToString]\<rparr>
                else w1)
      in done_fn lib None w2)"

text \<open>\<^verbatim>\<open>listener.addActionListener(action, callback)\<close>.\<close>

definition addActionListener ::
  "action_id \<Rightarrow> ('s, 'c, 'e) actions_world \<Rightarrow> ('s, 'c, 'e) actions_world" where
  "addActionListener a w =
     w\<lparr>listeners := listeners w @ [a], trace := trace w @ [AddActionListener a]\<rparr>"

text \<open>The handler, lines 130 to 190.\<close>

definition actions_handler ::
  "('s, 'c, 'e) collaborators \<Rightarrow> request \<Rightarrow>
   ('s, 'c, 'e) actions_world \<Rightarrow> ('s, 'c, 'e) actions_world" where
  "actions_handler lib req w =
     (if query_mode req = Some ''noss'' then call_next None w
      else (case getQueryBootstrap req of
              None \<Rightarrow> call_next None w
            | Some qb \<Rightarrow>
                (let w1 = w\<lparr>flux := Some (new_flux lib), listeners := [],
                            trace := trace w @ [NewFlux]\<rparr>;
                     w2 = addActionListener UPDATE_CONVERSIONS w1;
                     w3 = addActionListener CONVERSION_ERROR w2;
                     w4 = w3\<lparr>flux := map_option (setConversionTypes lib (types qb)) (flux w3),
                             trace := trace w3 @ [SetConversionTypes (types qb)]\<rparr>;
                     w5 = w4\<lparr>flux := map_option (setConversionValue lib (value_arg qb)) (flux w4),
                             trace := trace w4 @ [SetConversionValue (value_arg qb)]\<rparr>
                 in w5\<lparr>trace := trace w5 @
                         [FetchConversionsAction (types qb) (value_arg qb)]\<rparr>)))"

text \<open>
  What the asynchronous action \<^verbatim>\<open>fetchConversions\<close> dispatches later on the flux
  instance of the request: the conversions, or an error.
\<close>

datatype ('c, 'e) event = UpdateConversions 'c | ConversionError 'e

fun action_of :: "('c, 'e) event \<Rightarrow> action_id" where
  "action_of (UpdateConversions c) = UPDATE_CONVERSIONS"
| "action_of (ConversionError e) = CONVERSION_ERROR"

text \<open>
  Modelled from the spec: the dispatcher of the store library and its
  \<^verbatim>\<open>ActionListeners\<close>, which are not under \<^verbatim>\<open>src/\<close>. The spec's contract is
  "addListener(eventId, cb), removeAllListeners()": a callback runs when its action is
  dispatched, as long as it is registered.

  One dispatch on the flux instance of the request. Without an instance (the request
  stopped at a gate) there is nothing to dispatch on. The stores handle the action
  first, they registered before the listeners did; then the listener added for this
  action runs, if it is still registered, with the dispatched data as its argument.
\<close>

definition dispatch ::
  "('s, 'c, 'e) collaborators \<Rightarrow> request \<Rightarrow> ('c, 'e) event \<Rightarrow>
   ('s, 'c, 'e) actions_world \<Rightarrow> ('s, 'c, 'e) actions_world" where
  "dispatch lib req ev w =
     (case flux w of
        None \<Rightarrow> w
      | Some s \<Rightarrow>
          (let w1 = w\<lparr>flux := Some (case ev of
                                      UpdateConversions c \<Rightarrow> updateConversions lib c s
                                    | ConversionError e \<Rightarrow> conversionError lib e s)\<rparr>
           in if action_of ev \<in> set (listeners w1)
              then (case ev of
                      UpdateConversions c \<Rightarrow> on_update lib req w1
                    | ConversionError e \<Rightarrow> done_fn lib (Some e) w1)
              else w1))"

text \<open>One whole request: the handler, then the dispatches that follow, in their order.\<close>

definition actions_request ::
  "('s, 'c, 'e) collaborators \<Rightarrow> request \<Rightarrow> ('c, 'e) event list \<Rightarrow> locals \<Rightarrow>
   ('s, 'c, 'e) actions_world" where
  "actions_request lib req evs l =
     foldl (\<lambda>w ev. dispatch lib req ev w) (actions_handler lib req (actions_start l)) evs"

section \<open>An instance of the collaborators\<close>

text \<open>
  A small store to run the model on: its state is the list of what has been loaded into
  it, a snapshot is that list joined, and the markup wraps the snapshot.
\<close>

definition example_lib :: "(string list, string, string) collaborators" where
  "example_lib =
     \<lparr>new_flux = [],
      bootstrap = (\<lambda>c t v s. s @ [t, case_option ''undefined'' id v, c]),
      takeSnapshot = (\<lambda>s. concat (map (\<lambda>x. x @ '';'') s)),
      renderToString = (\<lambda>s. ''<div>'' @ concat (map (\<lambda>x. x @ '';'') s) @ ''</div>''),
      setConversionTypes = (\<lambda>t s. s @ [t]),
      setConversionValue = (\<lambda>v s. s @ [case_option ''undefined'' id v]),
      updateConversions = (\<lambda>c s. s @ [c]),
      conversionError = (\<lambda>e s. s)\<rparr>"

definition empty_locals :: locals where
  "empty_locals = \<lparr>bootstrapData = None, bootstrapComponent = None\<rparr>"

text \<open>Collaborators whose calls all return.\<close>

definition no_faults :: "('s, 'c, 'e) faults" where
  "no_faults =
     \<lparr>bootstrap_throws = (\<lambda>c t v s. None),
      takeSnapshot_throws = (\<lambda>s. None),
      renderToString_throws = (\<lambda>s. None)\<rparr>"

text \<open>
  A component that cannot render one conversion: \<^verbatim>\<open>renderToString\<close> throws when the
  last thing loaded into the store is \<open>x\<close>.
\<close>

definition render_fails_on :: "string \<Rightarrow> (string list, string, string) faults" where
  "render_fails_on x =
     \<lparr>bootstrap_throws = (\<lambda>c t v s. None),
      takeSnapshot_throws = (\<lambda>s. None),
      renderToString_throws =
        (\<lambda>s. if s = [] then None
             else if last s = x then Some ''render failed'' else None)\<rparr>"

section \<open>Reading a trace\<close>

text \<open>A call of the continuation, with any argument.\<close>

fun is_next :: "('c, 'e) effect \<Rightarrow> bool" where
  "is_next (Next err) = True"
| "is_next _ = False"

text \<open>
  The argument the continuation gets on each of the two terminal paths: none after
  \<^verbatim>\<open>UPDATE_CONVERSIONS\<close> (\<^verbatim>\<open>_done()\<close>, line 172), the dispatched error after
  \<^verbatim>\<open>CONVERSION_ERROR\<close> (\<^verbatim>\<open>_done\<close> is the listener itself, line 176).
\<close>

fun next_arg :: "('c, 'e) event \<Rightarrow> 'e option" where
  "next_arg (UpdateConversions c) = None"
| "next_arg (ConversionError e) = Some e"

text \<open>What the listener of an event does before the teardown starts.\<close>

fun before_teardown :: "('c, 'e) event \<Rightarrow> ('c, 'e) effect list" where
  "before_teardown (UpdateConversions c) = [TakeSnapshot, RenderToString]"
| "before_teardown (ConversionError e) = []"

section \<open>The parser\<close>

lemma js_split_no_sep: "c \<notin> set s \<Longrightarrow> js_split c s = [s]"
  by (induction s) auto

lemma js_split_first: "c \<notin> set t \<Longrightarrow> js_split c (t @ c # r) = t # js_split c r"
  by (induction t) auto

lemma js_split_head: "index (js_split c r) 0 = Some (takeWhile (\<lambda>x. x \<noteq> c) r)"
  by (induction r) (auto split: list.splits)

lemma index_second: "index (x # xs) 1 = index xs 0"
  unfolding One_nat_def by simp

lemma parser_missing_key:
  "query_bootstrap req = None \<Longrightarrow> getQueryBootstrap req = None"
  by (simp add: getQueryBootstrap_def)

lemma parser_empty_types:
  "query_bootstrap req = Some s \<Longrightarrow> takeWhile (\<lambda>x. x \<noteq> CHR '':'') s = [] \<Longrightarrow>
   getQueryBootstrap req = None"
  by (simp add: getQueryBootstrap_def js_split_head Let_def)

lemma parser_without_colon:
  "query_bootstrap req = Some s \<Longrightarrow> s \<noteq> [] \<Longrightarrow> CHR '':'' \<notin> set s \<Longrightarrow>
   getQueryBootstrap req = Some \<lparr>types = s, value_arg = None\<rparr>"
  by (simp add: getQueryBootstrap_def js_split_no_sep Let_def index_second)

text \<open>
  C3, as the claim states it, fails. The claim: the parser splits on the first colon
  only, and the whole remainder right of the first colon, further colons included,
  becomes the value. The code splits on every colon and keeps the parts 0 and 1: for
  \<^verbatim>\<open>time:12:30\<close> the value is \<^verbatim>\<open>12\<close>, not \<^verbatim>\<open>12:30\<close>.
\<close>

theorem parser_cuts_at_second_colon:
  "getQueryBootstrap \<lparr>query_mode = None, query_bootstrap = Some ''time:12:30''\<rparr> =
     Some \<lparr>types = ''time'', value_arg = Some ''12''\<rparr> \<and>
   getQueryBootstrap \<lparr>query_mode = None, query_bootstrap = Some ''time:12:30''\<rparr> \<noteq>
     Some \<lparr>types = ''time'', value_arg = Some ''12:30''\<rparr>"
  by (simp add: getQueryBootstrap_def)

text \<open>
  C3, amended: for every bootstrap string \<open>t:r\<close> where \<open>t\<close> has no colon, the part
  \<open>t\<close> left of the first colon becomes the types; an empty \<open>t\<close> means no instruction;
  otherwise the value is the part of \<open>r\<close> before its first colon, that is the text
  between the first and the second colon of the string (all of \<open>r\<close> when \<open>r\<close> has no
  colon, possibly empty), and what follows a second colon is dropped.
\<close>

theorem parser_keeps_first_two_parts:
  assumes "CHR '':'' \<notin> set t"
  shows "getQueryBootstrap \<lparr>query_mode = m, query_bootstrap = Some (t @ CHR '':'' # r)\<rparr> =
           (if t = [] then None
            else Some \<lparr>types = t, value_arg = Some (takeWhile (\<lambda>x. x \<noteq> CHR '':'') r)\<rparr>)"
  using assms
  by (simp add: getQueryBootstrap_def js_split_first index_second js_split_head)

theorem parser_keeps_first_two_parts_witness:
  "getQueryBootstrap \<lparr>query_mode = None, query_bootstrap = Some ''currency:100''\<rparr> =
     Some \<lparr>types = ''currency'', value_arg = Some ''100''\<rparr>"
  using parser_keeps_first_two_parts [of "''currency''" None "''100''"] by simp

section \<open>The steps of the two middleware\<close>

lemma fetch_request_noss:
  "query_mode req = Some ''noss'' \<Longrightarrow>
   fetch_request lib flt req out w = w\<lparr>trace := trace w @ [Next None]\<rparr>"
  by (simp add: fetch_request_def fetch_handler_def call_next_def)

lemma fetch_request_no_instruction:
  "getQueryBootstrap req = None \<Longrightarrow>
   fetch_request lib flt req out w = w\<lparr>trace := trace w @ [Next None]\<rparr>"
  by (simp add: fetch_request_def fetch_handler_def call_next_def)

lemma fetch_request_resolved:
  assumes "query_mode req \<noteq> Some ''noss''" and "getQueryBootstrap req = Some qb"
    and "bootstrap_throws flt c (types qb) (value_arg qb) (singleton w) = None"
    and "takeSnapshot_throws flt
           (bootstrap lib c (types qb) (value_arg qb) (singleton w)) = None"
    and "renderToString_throws flt
           (bootstrap lib c (types qb) (value_arg qb) (singleton w)) = None"
  shows "fetch_request lib flt req (Resolved c) w =
     w\<lparr>res_locals := (res_locals w)
         \<lparr>bootstrapData :=
            Some (takeSnapshot lib (bootstrap lib c (types qb) (value_arg qb) (singleton w))),
          bootstrapComponent :=
            Some (renderToString lib (bootstrap lib c (types qb) (value_arg qb) (singleton w)))\<rparr>,
       trace := trace w @ [FetchConversions (types qb) (value_arg qb),
                           Bootstrap c (types qb) (value_arg qb), TakeSnapshot,
                           RenderToString, Flush, Next None],
       singleton := new_flux lib\<rparr>"
  using assms
  by (cases w)
     (simp add: fetch_request_def fetch_handler_def fetch_settle_def fetch_then_def
        fetch_finish_def call_next_def flush_def Let_def)

lemma fetch_request_bootstrap_throws:
  assumes "query_mode req \<noteq> Some ''noss''" and "getQueryBootstrap req = Some qb"
    and "bootstrap_throws flt c (types qb) (value_arg qb) (singleton w) = Some err"
  shows "fetch_request lib flt req (Resolved c) w =
     w\<lparr>trace := trace w @ [FetchConversions (types qb) (value_arg qb),
                           Bootstrap c (types qb) (value_arg qb), Next (Some err)],
       singleton := bootstrap lib c (types qb) (value_arg qb) (singleton w)\<rparr>"
  using assms
  by (cases w)
     (simp add: fetch_request_def fetch_handler_def fetch_settle_def fetch_then_def
        fetch_catch_def call_next_def Let_def)

lemma fetch_request_takeSnapshot_throws:
  assumes "query_mode req \<noteq> Some ''noss''" and "getQueryBootstrap req = Some qb"
    and "bootstrap_throws flt c (types qb) (value_arg qb) (singleton w) = None"
    and "takeSnapshot_throws flt
           (bootstrap lib c (types qb) (value_arg qb) (singleton w)) = Some err"
  shows "fetch_request lib flt req (Resolved c) w =
     w\<lparr>trace := trace w @ [FetchConversions (types qb) (value_arg qb),
                           Bootstrap c (types qb) (value_arg qb), TakeSnapshot,
                           Next (Some err)],
       singleton := bootstrap lib c (types qb) (value_arg qb) (singleton w)\<rparr>"
  using assms
  by (cases w)
     (simp add: fetch_request_def fetch_handler_def fetch_settle_def fetch_then_def
        fetch_catch_def call_next_def Let_def)

lemma fetch_request_renderToString_throws:
  assumes "query_mode req \<noteq> Some ''noss''" and "getQueryBootstrap req = Some qb"
    and "bootstrap_throws flt c (types qb) (value_arg qb) (singleton w) = None"
    and "takeSnapshot_throws flt
           (bootstrap lib c (types qb) (value_arg qb) (singleton w)) = None"
    and "renderToString_throws flt
           (bootstrap lib c (types qb) (value_arg qb) (singleton w)) = Some err"
  shows "fetch_request lib flt req (Resolved c) w =
     w\<lparr>res_locals := (res_locals w)
         \<lparr>bootstrapData :=
            Some (takeSnapshot lib (bootstrap lib c (types qb) (value_arg qb) (singleton w)))\<rparr>,
       trace := trace w @ [FetchConversions (types qb) (value_arg qb),
                           Bootstrap c (types qb) (value_arg qb), TakeSnapshot,
                           RenderToString, Next (Some err)],
       singleton := bootstrap lib c (types qb) (value_arg qb) (singleton w)\<rparr>"
  using assms
  by (cases w)
     (simp add: fetch_request_def fetch_handler_def fetch_settle_def fetch_then_def
        fetch_catch_def call_next_def Let_def)

lemma fetch_request_rejected:
  assumes "query_mode req \<noteq> Some ''noss''" and "getQueryBootstrap req = Some qb"
  shows "fetch_request lib flt req (Rejected e) w =
     w\<lparr>trace := trace w @ [FetchConversions (types qb) (value_arg qb), Next (Some e)]\<rparr>"
  using assms
  by (simp add: fetch_request_def fetch_handler_def fetch_settle_def fetch_catch_def
      call_next_def)

lemma next_request_sel:
  "res_locals (next_request l w) = l"
  "trace (next_request l w) = []"
  "singleton (next_request l w) = singleton w"
  by (simp_all add: next_request_def)

text \<open>
  A request whose \<^verbatim>\<open>.then\<close> callback runs to its end leaves the shared store as a new
  instance has it; so does a request that stops at a gate or whose fetch is rejected,
  when the store was so before.
\<close>

lemma fetch_request_completed_clean:
  assumes "query_mode req \<noteq> Some ''noss''" and "getQueryBootstrap req = Some qb"
    and "bootstrap_throws flt c (types qb) (value_arg qb) (singleton w) = None"
    and "takeSnapshot_throws flt
           (bootstrap lib c (types qb) (value_arg qb) (singleton w)) = None"
    and "renderToString_throws flt
           (bootstrap lib c (types qb) (value_arg qb) (singleton w)) = None"
  shows "singleton (fetch_request lib flt req (Resolved c) w) = new_flux lib"
  by (simp add: fetch_request_resolved [OF assms])

lemma actions_handler_pass:
  assumes "query_mode req \<noteq> Some ''noss''" and "getQueryBootstrap req = Some qb"
  shows "actions_handler lib req (actions_start l) =
     \<lparr>res_locals = l,
      trace = [NewFlux, AddActionListener UPDATE_CONVERSIONS,
               AddActionListener CONVERSION_ERROR, SetConversionTypes (types qb),
               SetConversionValue (value_arg qb),
               FetchConversionsAction (types qb) (value_arg qb)],
      flux = Some (setConversionValue lib (value_arg qb)
                    (setConversionTypes lib (types qb) (new_flux lib))),
      listeners = [UPDATE_CONVERSIONS, CONVERSION_ERROR]\<rparr>"
  using assms
  by (simp add: actions_handler_def actions_start_def addActionListener_def Let_def)

lemma done_fn_unfolded:
  "done_fn lib err w =
     w\<lparr>listeners := [], flux := map_option (flush lib) (flux w),
       trace := trace w @ [RemoveAllActionListeners, Flush, Next err]\<rparr>"
  by (simp add: done_fn_def call_next_def Let_def)

lemma dispatch_no_listeners:
  "listeners w = [] \<Longrightarrow>
   trace (dispatch lib req ev w) = trace w \<and>
   res_locals (dispatch lib req ev w) = res_locals w \<and>
   listeners (dispatch lib req ev w) = []"
  by (simp add: dispatch_def Let_def split: option.splits)

lemma later_dispatches:
  "listeners w = [] \<Longrightarrow>
   trace (foldl (\<lambda>w ev. dispatch lib req ev w) w evs) = trace w \<and>
   res_locals (foldl (\<lambda>w ev. dispatch lib req ev w) w evs) = res_locals w \<and>
   listeners (foldl (\<lambda>w ev. dispatch lib req ev w) w evs) = []"
proof (induction evs arbitrary: w)
  case Nil
  then show ?case by simp
next
  case (Cons ev evs)
  have "listeners (dispatch lib req ev w) = []"
    using Cons.prems dispatch_no_listeners by blast
  from Cons.IH [OF this] show ?case
    using Cons.prems dispatch_no_listeners [of w lib req ev] by simp
qed

lemma first_dispatch:
  assumes "flux w = Some s" and "listeners w = [UPDATE_CONVERSIONS, CONVERSION_ERROR]"
    and "query_mode req \<noteq> Some ''noss''"
  shows "dispatch lib req ev w =
    (case ev of
       UpdateConversions c \<Rightarrow>
         \<lparr>res_locals = (res_locals w)
            \<lparr>bootstrapData := Some (takeSnapshot lib (updateConversions lib c s)),
             bootstrapComponent := Some (renderToString lib (updateConversions lib c s))\<rparr>,
          trace = trace w @ [TakeSnapshot, RenderToString, RemoveAllActionListeners, Flush,
                             Next None],
          flux = Some (new_flux lib), listeners = []\<rparr>
     | ConversionError e \<Rightarrow>
         \<lparr>res_locals = res_locals w,
          trace = trace w @ [RemoveAllActionListeners, Flush, Next (Some e)],
          flux = Some (new_flux lib), listeners = []\<rparr>)"
  using assms
  by (cases ev; cases w)
     (simp_all add: dispatch_def on_update_def done_fn_unfolded flush_def Let_def)

lemma actions_request_stopped:
  assumes "query_mode req = Some ''noss'' \<or> getQueryBootstrap req = None"
  shows "actions_request lib req evs l =
           \<lparr>res_locals = l, trace = [Next None], flux = None, listeners = []\<rparr>"
proof -
  have a: "actions_handler lib req (actions_start l) =
           \<lparr>res_locals = l, trace = [Next None], flux = None, listeners = []\<rparr>"
    using assms by (auto simp: actions_handler_def call_next_def actions_start_def)
  have d: "foldl (\<lambda>w ev. dispatch lib req ev w)
             \<lparr>res_locals = l, trace = [Next None], flux = None, listeners = []\<rparr> evs =
           \<lparr>res_locals = l, trace = [Next None], flux = None, listeners = []\<rparr>"
    by (induction evs) (simp_all add: dispatch_def)
  show ?thesis
    by (simp add: a d actions_request_def)
qed

lemma actions_request_first:
  assumes "query_mode req \<noteq> Some ''noss''" and "getQueryBootstrap req = Some qb"
  shows "trace (actions_request lib req (ev # evs) l) =
           trace (dispatch lib req ev (actions_handler lib req (actions_start l))) \<and>
         res_locals (actions_request lib req (ev # evs) l) =
           res_locals (dispatch lib req ev (actions_handler lib req (actions_start l)))"
proof -
  let ?w = "dispatch lib req ev (actions_handler lib req (actions_start l))"
  have "listeners ?w = []"
    by (cases ev) (simp_all add: actions_handler_pass [OF assms] first_dispatch assms(1))
  from later_dispatches [OF this, of lib req evs] show ?thesis
    by (simp add: actions_request_def)
qed

section \<open>Requests without an instruction\<close>

text \<open>
  C4: for every request that lacks the bootstrap key, or whose bootstrap string has an
  empty types segment (nothing before its first colon), both middleware call the
  continuation synchronously, without an argument, and write nothing into the locals.
  The handler of the fetch-first middleware returns with the call made and no fetch
  outstanding; the handler of the actions middleware returns with the call made, no
  flux instance and no listener, and no later dispatch changes that.
\<close>

theorem no_instruction_passes_through:
  assumes "case query_bootstrap req of
             None \<Rightarrow> True
           | Some s \<Rightarrow> takeWhile (\<lambda>x. x \<noteq> CHR '':'') s = []"
  shows "fetch_handler req w = (w\<lparr>trace := trace w @ [Next None]\<rparr>, None) \<and>
         fetch_request lib flt req out w = w\<lparr>trace := trace w @ [Next None]\<rparr> \<and>
         actions_handler lib' req (actions_start l) =
           \<lparr>res_locals = l, trace = [Next None], flux = None, listeners = []\<rparr> \<and>
         actions_request lib' req evs l =
           \<lparr>res_locals = l, trace = [Next None], flux = None, listeners = []\<rparr>"
proof -
  have g: "getQueryBootstrap req = None"
    using assms parser_missing_key parser_empty_types
    by (cases "query_bootstrap req") auto
  have h: "fetch_handler req w = (w\<lparr>trace := trace w @ [Next None]\<rparr>, None)"
    by (simp add: fetch_handler_def g call_next_def)
  have a: "actions_handler lib' req (actions_start l) =
           \<lparr>res_locals = l, trace = [Next None], flux = None, listeners = []\<rparr>"
    by (simp add: actions_handler_def g call_next_def actions_start_def)
  show ?thesis
    by (simp add: h a fetch_request_no_instruction [OF g] actions_request_stopped g)
qed

theorem no_instruction_passes_through_witness:
  "fetch_request example_lib no_faults
     \<lparr>query_mode = None, query_bootstrap = Some '':100''\<rparr>
     (Resolved ''1 USD'') (fetch_factory example_lib empty_locals) =
     \<lparr>res_locals = empty_locals, trace = [Next None], singleton = []\<rparr> \<and>
   actions_request example_lib \<lparr>query_mode = None, query_bootstrap = Some '':100''\<rparr>
     [UpdateConversions ''1 USD''] empty_locals =
     \<lparr>res_locals = empty_locals, trace = [Next None], flux = None, listeners = []\<rparr>"
  using no_instruction_passes_through
    [where req = "\<lparr>query_mode = None, query_bootstrap = Some '':100''\<rparr>"
       and lib = example_lib and flt = no_faults and lib' = example_lib and out = "Resolved ''1 USD''"
       and w = "fetch_factory example_lib empty_locals"
       and evs = "[UpdateConversions ''1 USD'']" and l = empty_locals]
  by (simp add: fetch_factory_def example_lib_def)

section \<open>The fetch-first middleware\<close>

text \<open>
  C2: for every request with a well-formed instruction whose fetch rejects with the
  error \<open>e\<close> (the handler did start a fetch), the continuation is called exactly once,
  with \<open>e\<close> as its argument: the effects of the request are the call of
  \<^verbatim>\<open>fetchConversions\<close> and then \<open>Next (Some e)\<close>, nothing else. The locals are as
  they were (no snapshot, no markup written), and the shared store is as it was:
  \<open>Flush\<close> is not among the effects. This holds whatever the collaborators would
  throw, since none of them is called.
\<close>

theorem fetch_rejection_goes_to_next:
  assumes "getQueryBootstrap req = Some qb" and "snd (fetch_handler req w) \<noteq> None"
  shows "trace (fetch_request lib flt req (Rejected e) w) =
           trace w @ [FetchConversions (types qb) (value_arg qb), Next (Some e)] \<and>
         res_locals (fetch_request lib flt req (Rejected e) w) = res_locals w \<and>
         singleton (fetch_request lib flt req (Rejected e) w) = singleton w"
proof -
  have m: "query_mode req \<noteq> Some ''noss''"
    using assms(2) by (auto simp: fetch_handler_def)
  show ?thesis
    by (simp add: fetch_request_rejected [OF m assms(1)])
qed

theorem fetch_rejection_goes_to_next_witness:
  "trace (fetch_request example_lib no_faults
            \<lparr>query_mode = None, query_bootstrap = Some ''currency:100''\<rparr>
            (Rejected ''ECONNREFUSED'') (fetch_factory example_lib empty_locals)) =
     [FetchConversions ''currency'' (Some ''100''), Next (Some ''ECONNREFUSED'')] \<and>
   res_locals (fetch_request example_lib no_faults
            \<lparr>query_mode = None, query_bootstrap = Some ''currency:100''\<rparr>
            (Rejected ''ECONNREFUSED'') (fetch_factory example_lib empty_locals)) =
     empty_locals \<and>
   singleton (fetch_request example_lib no_faults
            \<lparr>query_mode = None, query_bootstrap = Some ''currency:100''\<rparr>
            (Rejected ''ECONNREFUSED'') (fetch_factory example_lib empty_locals)) = []"
  using fetch_rejection_goes_to_next
    [where req = "\<lparr>query_mode = None, query_bootstrap = Some ''currency:100''\<rparr>"
       and qb = "\<lparr>types = ''currency'', value_arg = Some ''100''\<rparr>"
       and lib = example_lib and flt = no_faults and e = "''ECONNREFUSED''"
       and w = "fetch_factory example_lib empty_locals"]
  by (simp add: getQueryBootstrap_def fetch_handler_def fetch_factory_def example_lib_def)


section \<open>The actions middleware\<close>

text \<open>
  C7: for every request that passes the two gates, the handler of the actions middleware
  first registers its two listeners, for \<^verbatim>\<open>UPDATE_CONVERSIONS\<close> and then for
  \<^verbatim>\<open>CONVERSION_ERROR\<close>, and then fires exactly three actions, in this order:
  \<^verbatim>\<open>setConversionTypes(types)\<close>, \<^verbatim>\<open>setConversionValue(value)\<close> and the asynchronous
  \<^verbatim>\<open>fetchConversions(types, value)\<close>. When the handler returns, both listeners are
  registered.
\<close>

theorem actions_handler_order:
  assumes "query_mode req \<noteq> Some ''noss''" and "getQueryBootstrap req = Some qb"
  shows "trace (actions_handler lib req (actions_start l)) =
           [NewFlux, AddActionListener UPDATE_CONVERSIONS,
            AddActionListener CONVERSION_ERROR, SetConversionTypes (types qb),
            SetConversionValue (value_arg qb),
            FetchConversionsAction (types qb) (value_arg qb)] \<and>
         listeners (actions_handler lib req (actions_start l)) =
           [UPDATE_CONVERSIONS, CONVERSION_ERROR]"
  by (simp add: actions_handler_pass [OF assms])

theorem actions_handler_order_witness:
  "trace (actions_handler example_lib
            \<lparr>query_mode = None, query_bootstrap = Some ''currency:100''\<rparr>
            (actions_start empty_locals)) =
     [NewFlux, AddActionListener UPDATE_CONVERSIONS, AddActionListener CONVERSION_ERROR,
      SetConversionTypes ''currency'', SetConversionValue (Some ''100''),
      FetchConversionsAction ''currency'' (Some ''100'')] \<and>
   listeners (actions_handler example_lib
            \<lparr>query_mode = None, query_bootstrap = Some ''currency:100''\<rparr>
            (actions_start empty_locals)) =
     [UPDATE_CONVERSIONS, CONVERSION_ERROR]"
  using actions_handler_order
    [where req = "\<lparr>query_mode = None, query_bootstrap = Some ''currency:100''\<rparr>"
       and qb = "\<lparr>types = ''currency'', value_arg = Some ''100''\<rparr>"
       and lib = example_lib and l = empty_locals]
  by (simp add: getQueryBootstrap_def)



text \<open>
  C10: for every request that passes the two gates, on both terminal paths the
  continuation is called in a world where the teardown is complete: the request is the
  call of the continuation (without an argument after \<^verbatim>\<open>UPDATE_CONVERSIONS\<close>, with the
  error after \<^verbatim>\<open>CONVERSION_ERROR\<close>) made in a world with no listener registered and
  the store flushed, whose effects end with \<open>RemoveAllActionListeners, Flush\<close> and
  hold no call of the continuation; dispatches after the first add nothing to that.
\<close>

theorem teardown_before_next:
  assumes "query_mode req \<noteq> Some ''noss''" and "getQueryBootstrap req = Some qb"
  shows "actions_request lib req [ev] l =
           call_next (next_arg ev)
             \<lparr>res_locals = res_locals (actions_request lib req [ev] l),
              trace = trace (actions_handler lib req (actions_start l)) @
                        before_teardown ev @ [RemoveAllActionListeners, Flush],
              flux = Some (new_flux lib),
              listeners = []\<rparr> \<and>
         filter is_next (trace (actions_handler lib req (actions_start l)) @
                           before_teardown ev @ [RemoveAllActionListeners, Flush]) = [] \<and>
         trace (actions_request lib req (ev # evs) l) =
           trace (actions_handler lib req (actions_start l)) @
             before_teardown ev @ [RemoveAllActionListeners, Flush, Next (next_arg ev)]"
proof -
  have one: "actions_request lib req [ev] l =
               dispatch lib req ev (actions_handler lib req (actions_start l))"
    by (simp add: actions_request_def)
  show ?thesis
    unfolding one
    by (cases ev)
       (simp_all add: actions_request_first [OF assms] actions_handler_pass [OF assms]
          first_dispatch assms(1) call_next_def)
qed

theorem teardown_before_next_witness:
  "actions_request example_lib
      \<lparr>query_mode = None, query_bootstrap = Some ''currency:100''\<rparr>
      [ConversionError ''ECONNREFUSED''] empty_locals =
     call_next (Some ''ECONNREFUSED'')
       \<lparr>res_locals = empty_locals,
        trace = [NewFlux, AddActionListener UPDATE_CONVERSIONS,
                 AddActionListener CONVERSION_ERROR, SetConversionTypes ''currency'',
                 SetConversionValue (Some ''100''),
                 FetchConversionsAction ''currency'' (Some ''100''),
                 RemoveAllActionListeners, Flush],
        flux = Some [], listeners = []\<rparr>"
proof -
  have g: "getQueryBootstrap \<lparr>query_mode = None, query_bootstrap = Some ''currency:100''\<rparr> =
             Some \<lparr>types = ''currency'', value_arg = Some ''100''\<rparr>"
    by (simp add: getQueryBootstrap_def)
  have m: "query_mode \<lparr>query_mode = None, query_bootstrap = Some ''currency:100''\<rparr> \<noteq>
             Some ''noss''"
    by simp
  have r: "res_locals (actions_request example_lib
      \<lparr>query_mode = None, query_bootstrap = Some ''currency:100''\<rparr>
      [ConversionError ''ECONNREFUSED''] empty_locals) = empty_locals"
    by (simp add: actions_request_def actions_handler_pass [OF m g] first_dispatch)
  have n: "new_flux example_lib = []"
    by (simp add: example_lib_def)
  show ?thesis
    using teardown_before_next [OF m g, of example_lib "ConversionError ''ECONNREFUSED''"
        empty_locals "[]", THEN conjunct1]
    unfolding r n by (simp add: actions_handler_pass [OF m g])
qed

section \<open>Snapshot and markup\<close>

text \<open>
  C5, as the claim states it, fails. The claim: every request with a well-formed
  instruction whose fetch or actions succeed gets a non-null snapshot, with the markup
  null when server-side rendering is not requested. A request with
  \<^verbatim>\<open>__mode=noss\<close> and \<^verbatim>\<open>__bootstrap=currency:100\<close> has a well-formed instruction, and
  the network would answer; both middleware return at their first line and the snapshot
  stays null.
\<close>

theorem noss_request_gets_no_snapshot:
  "getQueryBootstrap \<lparr>query_mode = Some ''noss'', query_bootstrap = Some ''currency:100''\<rparr> =
     Some \<lparr>types = ''currency'', value_arg = Some ''100''\<rparr> \<and>
   bootstrapData (res_locals (fetch_request example_lib no_faults
      \<lparr>query_mode = Some ''noss'', query_bootstrap = Some ''currency:100''\<rparr>
      (Resolved ''1 USD'') (fetch_factory example_lib empty_locals))) = None \<and>
   bootstrapData (res_locals (actions_request example_lib
      \<lparr>query_mode = Some ''noss'', query_bootstrap = Some ''currency:100''\<rparr>
      [UpdateConversions ''1 USD''] empty_locals)) = None"
  by (simp add: getQueryBootstrap_def fetch_request_noss actions_request_stopped
      fetch_factory_def empty_locals_def)

text \<open>
  C5, amended: for every request with a well-formed instruction. When the mode is
  \<^verbatim>\<open>noss\<close>, both middleware leave the locals as they were, writing neither a snapshot
  nor a markup. When the mode is not \<^verbatim>\<open>noss\<close>: in the fetch-first middleware, if the
  fetch resolves and the calls of \<^verbatim>\<open>bootstrap\<close>, \<^verbatim>\<open>takeSnapshot\<close> and
  \<^verbatim>\<open>renderToString\<close> return, a snapshot and a markup are written, both non-null; in
  the actions middleware, if the first dispatched event is \<^verbatim>\<open>UPDATE_CONVERSIONS\<close> (and
  the calls of its listener return, as they do in this model), a snapshot and a markup
  are written, both non-null.
\<close>

theorem success_writes_snapshot_and_markup:
  assumes "getQueryBootstrap req = Some qb"
  shows "if query_mode req = Some ''noss''
         then res_locals (fetch_request lib flt req (Resolved c) w) = res_locals w \<and>
              res_locals (actions_request lib req (UpdateConversions c # evs) l) = l
         else (bootstrap_throws flt c (types qb) (value_arg qb) (singleton w) = None \<and>
               takeSnapshot_throws flt
                 (bootstrap lib c (types qb) (value_arg qb) (singleton w)) = None \<and>
               renderToString_throws flt
                 (bootstrap lib c (types qb) (value_arg qb) (singleton w)) = None \<longrightarrow>
               bootstrapData (res_locals (fetch_request lib flt req (Resolved c) w)) =
                 Some (takeSnapshot lib
                        (bootstrap lib c (types qb) (value_arg qb) (singleton w))) \<and>
               bootstrapComponent (res_locals (fetch_request lib flt req (Resolved c) w)) =
                 Some (renderToString lib
                        (bootstrap lib c (types qb) (value_arg qb) (singleton w)))) \<and>
              bootstrapData (res_locals (actions_request lib req (UpdateConversions c # evs) l)) =
                Some (takeSnapshot lib (updateConversions lib c
                       (setConversionValue lib (value_arg qb)
                         (setConversionTypes lib (types qb) (new_flux lib))))) \<and>
              bootstrapComponent
                  (res_locals (actions_request lib req (UpdateConversions c # evs) l)) =
                Some (renderToString lib (updateConversions lib c
                       (setConversionValue lib (value_arg qb)
                         (setConversionTypes lib (types qb) (new_flux lib)))))"
proof (cases "query_mode req = Some ''noss''")
  case True
  then show ?thesis
    by (simp add: fetch_request_noss actions_request_stopped)
next
  case False
  then show ?thesis
    by (simp add: fetch_request_resolved [OF False assms]
        actions_request_first [OF False assms] actions_handler_pass [OF False assms]
        first_dispatch)
qed

theorem success_writes_snapshot_and_markup_witness:
  "res_locals (fetch_request example_lib no_faults
      \<lparr>query_mode = None, query_bootstrap = Some ''currency:100''\<rparr>
      (Resolved ''1 USD'') (fetch_factory example_lib empty_locals)) =
     \<lparr>bootstrapData = Some ''currency;100;1 USD;'',
      bootstrapComponent = Some ''<div>currency;100;1 USD;</div>''\<rparr> \<and>
   res_locals (actions_request example_lib
      \<lparr>query_mode = None, query_bootstrap = Some ''currency:100''\<rparr>
      [UpdateConversions ''1 USD''] empty_locals) =
     \<lparr>bootstrapData = Some ''currency;100;1 USD;'',
      bootstrapComponent = Some ''<div>currency;100;1 USD;</div>''\<rparr>"
proof -
  have g: "getQueryBootstrap \<lparr>query_mode = None, query_bootstrap = Some ''currency:100''\<rparr> =
             Some \<lparr>types = ''currency'', value_arg = Some ''100''\<rparr>"
    by (simp add: getQueryBootstrap_def)
  have "bootstrapData (res_locals (fetch_request example_lib no_faults
            \<lparr>query_mode = None, query_bootstrap = Some ''currency:100''\<rparr>
            (Resolved ''1 USD'') (fetch_factory example_lib empty_locals))) =
          Some ''currency;100;1 USD;'' \<and>
        bootstrapComponent (res_locals (fetch_request example_lib no_faults
            \<lparr>query_mode = None, query_bootstrap = Some ''currency:100''\<rparr>
            (Resolved ''1 USD'') (fetch_factory example_lib empty_locals))) =
          Some ''<div>currency;100;1 USD;</div>'' \<and>
        bootstrapData (res_locals (actions_request example_lib
            \<lparr>query_mode = None, query_bootstrap = Some ''currency:100''\<rparr>
            [UpdateConversions ''1 USD''] empty_locals)) =
          Some ''currency;100;1 USD;'' \<and>
        bootstrapComponent (res_locals (actions_request example_lib
            \<lparr>query_mode = None, query_bootstrap = Some ''currency:100''\<rparr>
            [UpdateConversions ''1 USD''] empty_locals)) =
          Some ''<div>currency;100;1 USD;</div>''"
    using success_writes_snapshot_and_markup
      [OF g, of example_lib no_faults "''1 USD''" "fetch_factory example_lib empty_locals"
         "[]" empty_locals]
    by (simp add: example_lib_def fetch_factory_def no_faults_def)
  then show ?thesis
    by (cases "res_locals (fetch_request example_lib no_faults
            \<lparr>query_mode = None, query_bootstrap = Some ''currency:100''\<rparr>
            (Resolved ''1 USD'') (fetch_factory example_lib empty_locals))";
        cases "res_locals (actions_request example_lib
            \<lparr>query_mode = None, query_bootstrap = Some ''currency:100''\<rparr>
            [UpdateConversions ''1 USD''] empty_locals)")
       simp
qed

text \<open>
  C8, as the claim states it, fails. The claim: for every request, whenever the snapshot
  is written the markup is written too. In the fetch-first middleware the snapshot is
  written on line 84, before \<^verbatim>\<open>renderToString\<close> is called; when that call throws,
  \<^verbatim>\<open>.catch\<close> passes the exception to the continuation, and the request ends with a
  snapshot and without a markup.
\<close>

theorem throwing_render_leaves_snapshot_alone:
  "res_locals (fetch_request example_lib (render_fails_on ''2 EUR'')
      \<lparr>query_mode = None, query_bootstrap = Some ''currency:100''\<rparr>
      (Resolved ''2 EUR'') (fetch_factory example_lib empty_locals)) =
     \<lparr>bootstrapData = Some ''currency;100;2 EUR;'', bootstrapComponent = None\<rparr> \<and>
   last (trace (fetch_request example_lib (render_fails_on ''2 EUR'')
      \<lparr>query_mode = None, query_bootstrap = Some ''currency:100''\<rparr>
      (Resolved ''2 EUR'') (fetch_factory example_lib empty_locals))) =
     Next (Some ''render failed'')"
proof -
  let ?req = "\<lparr>query_mode = None, query_bootstrap = Some ''currency:100''\<rparr>"
  let ?qb = "\<lparr>types = ''currency'', value_arg = Some ''100''\<rparr>"
  have g: "getQueryBootstrap ?req = Some ?qb"
    by (simp add: getQueryBootstrap_def)
  have m: "query_mode ?req \<noteq> Some ''noss''"
    by simp
  show ?thesis
    by (subst fetch_request_renderToString_throws [OF m g, where err = "''render failed''"],
        simp_all add: fetch_factory_def example_lib_def render_fails_on_def empty_locals_def)+
qed

text \<open>
  C8, amended: in both middleware the snapshot is written only by requests whose mode is
  not \<^verbatim>\<open>noss\<close>, so the check that guards the rendering holds whenever it is reached.
  For every request on a response that had no snapshot yet, whatever the answer of the
  network, whatever is dispatched and whatever the collaborators throw: when the request
  has written a snapshot, \<^verbatim>\<open>renderToString\<close> has been called, and the markup is
  written too unless that call threw. In the fetch-first middleware a throwing call
  leaves the markup as it was, the store as it was loaded, and the exception is the
  argument of the last call of the continuation. For the actions middleware the
  statement is about the listener whose calls return.
\<close>

theorem snapshot_implies_render_called:
  assumes "bootstrapData l = None"
  shows "(bootstrapData (res_locals (fetch_request lib flt req out (next_request l w))) \<noteq> None \<longrightarrow>
            query_mode req \<noteq> Some ''noss'' \<and>
            RenderToString \<in> set (trace (fetch_request lib flt req out (next_request l w))) \<and>
            (bootstrapComponent (res_locals (fetch_request lib flt req out (next_request l w)))
               \<noteq> None \<or>
             renderToString_throws flt
                 (singleton (fetch_request lib flt req out (next_request l w))) \<noteq> None \<and>
             last (trace (fetch_request lib flt req out (next_request l w))) =
               Next (renderToString_throws flt
                 (singleton (fetch_request lib flt req out (next_request l w)))) \<and>
             bootstrapComponent (res_locals (fetch_request lib flt req out (next_request l w))) =
               bootstrapComponent l)) \<and>
         (bootstrapData (res_locals (actions_request lib req evs l)) \<noteq> None \<longrightarrow>
            query_mode req \<noteq> Some ''noss'' \<and>
            RenderToString \<in> set (trace (actions_request lib req evs l)) \<and>
            bootstrapComponent (res_locals (actions_request lib req evs l)) \<noteq> None)"
proof (cases "query_mode req = Some ''noss'' \<or> getQueryBootstrap req = None")
  case True
  then have "fetch_request lib flt req out (next_request l w) =
               (next_request l w)\<lparr>trace := trace (next_request l w) @ [Next None]\<rparr>"
    using fetch_request_noss fetch_request_no_instruction by blast
  then show ?thesis
    using assms by (simp add: actions_request_stopped [OF True] next_request_sel)
next
  case False
  then obtain qb where m: "query_mode req \<noteq> Some ''noss''"
    and g: "getQueryBootstrap req = Some qb"
    by auto
  let ?F = "fetch_request lib flt req out (next_request l w)"
  have f: "bootstrapData (res_locals ?F) \<noteq> None \<longrightarrow>
            query_mode req \<noteq> Some ''noss'' \<and>
            RenderToString \<in> set (trace ?F) \<and>
            (bootstrapComponent (res_locals ?F) \<noteq> None \<or>
             renderToString_throws flt (singleton ?F) \<noteq> None \<and>
             last (trace ?F) = Next (renderToString_throws flt (singleton ?F)) \<and>
             bootstrapComponent (res_locals ?F) = bootstrapComponent l)"
  proof (cases out)
    case (Rejected e)
    then show ?thesis
      using assms by (simp add: fetch_request_rejected [OF m g] next_request_sel)
  next
    case (Resolved c)
    let ?s = "bootstrap lib c (types qb) (value_arg qb) (singleton (next_request l w))"
    show ?thesis
    proof (cases "bootstrap_throws flt c (types qb) (value_arg qb)
                    (singleton (next_request l w))")
      case (Some err)
      then show ?thesis
        using assms
        by (simp add: Resolved fetch_request_bootstrap_throws [OF m g Some] next_request_sel)
    next
      case b: None
      show ?thesis
      proof (cases "takeSnapshot_throws flt ?s")
        case (Some err)
        then show ?thesis
          using assms
          by (simp add: Resolved fetch_request_takeSnapshot_throws [OF m g b Some]
              next_request_sel)
      next
        case t: None
        show ?thesis
        proof (cases "renderToString_throws flt ?s")
          case (Some err)
          show ?thesis
            using Some
            by (simp add: Resolved fetch_request_renderToString_throws [OF m g b t Some] m
                next_request_sel)
        next
          case None
          show ?thesis
            by (simp add: Resolved fetch_request_resolved [OF m g b t None] m
                next_request_sel)
        qed
      qed
    qed
  qed
  have a: "bootstrapData (res_locals (actions_request lib req evs l)) \<noteq> None \<longrightarrow>
      query_mode req \<noteq> Some ''noss'' \<and>
      RenderToString \<in> set (trace (actions_request lib req evs l)) \<and>
      bootstrapComponent (res_locals (actions_request lib req evs l)) \<noteq> None"
  proof (cases evs)
    case Nil
    then show ?thesis
      using assms by (simp add: actions_request_def actions_handler_pass [OF m g])
  next
    case (Cons ev evs')
    show ?thesis
      using assms
      by (cases ev)
         (simp_all add: Cons actions_request_first [OF m g] actions_handler_pass [OF m g]
            first_dispatch m)
  qed
  from f a show ?thesis by blast
qed

theorem snapshot_implies_render_called_witness:
  "query_mode \<lparr>query_mode = None, query_bootstrap = Some ''currency:100''\<rparr> \<noteq> Some ''noss'' \<and>
   RenderToString \<in> set (trace (fetch_request example_lib (render_fails_on ''2 EUR'')
      \<lparr>query_mode = None, query_bootstrap = Some ''currency:100''\<rparr> (Resolved ''2 EUR'')
      (next_request empty_locals (fetch_factory example_lib empty_locals)))) \<and>
   renderToString_throws (render_fails_on ''2 EUR'')
      (singleton (fetch_request example_lib (render_fails_on ''2 EUR'')
         \<lparr>query_mode = None, query_bootstrap = Some ''currency:100''\<rparr> (Resolved ''2 EUR'')
         (next_request empty_locals (fetch_factory example_lib empty_locals)))) =
     Some ''render failed'' \<and>
   last (trace (fetch_request example_lib (render_fails_on ''2 EUR'')
      \<lparr>query_mode = None, query_bootstrap = Some ''currency:100''\<rparr> (Resolved ''2 EUR'')
      (next_request empty_locals (fetch_factory example_lib empty_locals)))) =
     Next (Some ''render failed'') \<and>
   RenderToString \<in> set (trace (actions_request example_lib
      \<lparr>query_mode = None, query_bootstrap = Some ''currency:100''\<rparr>
      [UpdateConversions ''1 USD''] empty_locals)) \<and>
   bootstrapComponent (res_locals (actions_request example_lib
      \<lparr>query_mode = None, query_bootstrap = Some ''currency:100''\<rparr>
      [UpdateConversions ''1 USD''] empty_locals)) =
     Some ''<div>currency;100;1 USD;</div>''"
proof -
  let ?req = "\<lparr>query_mode = None, query_bootstrap = Some ''currency:100''\<rparr>"
  let ?qb = "\<lparr>types = ''currency'', value_arg = Some ''100''\<rparr>"
  let ?F = "fetch_request example_lib (render_fails_on ''2 EUR'') ?req (Resolved ''2 EUR'')
              (next_request empty_locals (fetch_factory example_lib empty_locals))"
  let ?A = "actions_request example_lib ?req [UpdateConversions ''1 USD''] empty_locals"
  have g: "getQueryBootstrap ?req = Some ?qb"
    by (simp add: getQueryBootstrap_def)
  have m: "query_mode ?req \<noteq> Some ''noss''"
    by simp
  have e: "bootstrapData empty_locals = None"
    by (simp add: empty_locals_def)
  have F: "?F = \<lparr>res_locals = \<lparr>bootstrapData = Some ''currency;100;2 EUR;'',
                               bootstrapComponent = None\<rparr>,
                trace = [FetchConversions ''currency'' (Some ''100''),
                         Bootstrap ''2 EUR'' ''currency'' (Some ''100''), TakeSnapshot,
                         RenderToString, Next (Some ''render failed'')],
                singleton = [''currency'', ''100'', ''2 EUR'']\<rparr>"
    by (subst fetch_request_renderToString_throws [OF m g, where err = "''render failed''"])
       (simp_all add: fetch_factory_def next_request_def example_lib_def render_fails_on_def
          empty_locals_def)
  have A: "res_locals ?A = \<lparr>bootstrapData = Some ''currency;100;1 USD;'',
                            bootstrapComponent = Some ''<div>currency;100;1 USD;</div>''\<rparr>"
    by (simp add: actions_request_def actions_handler_pass [OF m g] first_dispatch
        example_lib_def empty_locals_def)
  note t = snapshot_implies_render_called
    [OF e, where lib = example_lib and flt = "render_fails_on ''2 EUR''" and req = ?req
       and out = "Resolved ''2 EUR''" and w = "fetch_factory example_lib empty_locals"
       and evs = "[UpdateConversions ''1 USD'']"]
  have tf: "query_mode ?req \<noteq> Some ''noss'' \<and> RenderToString \<in> set (trace ?F)"
    using t [THEN conjunct1] by (simp add: F)
  have ta: "RenderToString \<in> set (trace ?A)"
    using t [THEN conjunct2] by (simp add: A)
  have r: "renderToString_throws (render_fails_on ''2 EUR'') (singleton ?F) =
             Some ''render failed''"
    unfolding F by (simp add: render_fails_on_def)
  have n: "last (trace ?F) = Next (Some ''render failed'')"
    unfolding F by simp
  have c: "bootstrapComponent (res_locals ?A) = Some ''<div>currency;100;1 USD;</div>''"
    unfolding A by simp
  show ?thesis
    by (intro conjI)
       (fact m, fact tf [THEN conjunct2], fact r, fact n, fact ta, fact c)
qed

section \<open>An instruction without a colon\<close>

text \<open>
  C9, as the claim states it, fails. The claim: for every request whose bootstrap string
  is not empty and has no colon, both middleware go on to fetch or to fire the actions.
  A request with \<^verbatim>\<open>__mode=noss\<close> and \<^verbatim>\<open>__bootstrap=currency\<close> is such a request, and
  both handlers only call the continuation: no fetch, no action.
\<close>

theorem noss_stops_colonless_request:
  "getQueryBootstrap \<lparr>query_mode = Some ''noss'', query_bootstrap = Some ''currency''\<rparr> =
     Some \<lparr>types = ''currency'', value_arg = None\<rparr> \<and>
   fetch_handler \<lparr>query_mode = Some ''noss'', query_bootstrap = Some ''currency''\<rparr>
       (fetch_factory example_lib empty_locals) =
     (\<lparr>res_locals = empty_locals, trace = [Next None], singleton = []\<rparr>, None) \<and>
   trace (actions_handler example_lib
       \<lparr>query_mode = Some ''noss'', query_bootstrap = Some ''currency''\<rparr>
       (actions_start empty_locals)) = [Next None]"
  by (simp add: getQueryBootstrap_def fetch_handler_def actions_handler_def call_next_def
      fetch_factory_def actions_start_def example_lib_def)

text \<open>
  C9, amended: for every request whose bootstrap string is not empty and has no colon,
  the parser returns an instruction whose types is the whole string and whose value is
  absent (\<open>None\<close>, not the empty string); when the mode of the request is not
  \<^verbatim>\<open>noss\<close>, the fetch-first handler calls \<^verbatim>\<open>fetchConversions\<close> with these types and
  the absent value, and the actions handler fires its three actions with them; when the
  mode is \<^verbatim>\<open>noss\<close>, both handlers only call the continuation.
\<close>

theorem colonless_instruction_proceeds:
  assumes "query_bootstrap req = Some s" and "s \<noteq> []" and "CHR '':'' \<notin> set s"
  shows "getQueryBootstrap req = Some \<lparr>types = s, value_arg = None\<rparr> \<and>
         (if query_mode req = Some ''noss''
          then fetch_handler req w = (w\<lparr>trace := trace w @ [Next None]\<rparr>, None) \<and>
               trace (actions_handler lib req (actions_start l)) = [Next None]
          else fetch_handler req w =
                 (w\<lparr>trace := trace w @ [FetchConversions s None]\<rparr>,
                  Some \<lparr>types = s, value_arg = None\<rparr>) \<and>
               trace (actions_handler lib req (actions_start l)) =
                 [NewFlux, AddActionListener UPDATE_CONVERSIONS,
                  AddActionListener CONVERSION_ERROR, SetConversionTypes s,
                  SetConversionValue None, FetchConversionsAction s None])"
proof -
  have g: "getQueryBootstrap req = Some \<lparr>types = s, value_arg = None\<rparr>"
    using assms by (rule parser_without_colon)
  show ?thesis
  proof (cases "query_mode req = Some ''noss''")
    case True
    then show ?thesis
      by (simp add: g fetch_handler_def actions_handler_def call_next_def actions_start_def)
  next
    case False
    then show ?thesis
      by (simp add: g fetch_handler_def actions_handler_pass [OF False g])
  qed
qed

theorem colonless_instruction_proceeds_witness:
  "getQueryBootstrap \<lparr>query_mode = None, query_bootstrap = Some ''currency''\<rparr> =
     Some \<lparr>types = ''currency'', value_arg = None\<rparr> \<and>
   fetch_handler \<lparr>query_mode = None, query_bootstrap = Some ''currency''\<rparr>
       (fetch_factory example_lib empty_locals) =
     (\<lparr>res_locals = empty_locals, trace = [FetchConversions ''currency'' None],
       singleton = []\<rparr>,
      Some \<lparr>types = ''currency'', value_arg = None\<rparr>) \<and>
   trace (actions_handler example_lib
       \<lparr>query_mode = None, query_bootstrap = Some ''currency''\<rparr>
       (actions_start empty_locals)) =
     [NewFlux, AddActionListener UPDATE_CONVERSIONS, AddActionListener CONVERSION_ERROR,
      SetConversionTypes ''currency'', SetConversionValue None,
      FetchConversionsAction ''currency'' None]"
proof -
  have n: "fetch_factory example_lib empty_locals =
             \<lparr>res_locals = empty_locals, trace = [], singleton = []\<rparr>"
    by (simp add: fetch_factory_def example_lib_def)
  show ?thesis
    using colonless_instruction_proceeds
      [where req = "\<lparr>query_mode = None, query_bootstrap = Some ''currency''\<rparr>"
         and s = "''currency''" and lib = example_lib and l = empty_locals
         and w = "fetch_factory example_lib empty_locals"]
    unfolding n by simp
qed

end
